theory Spec2Isabelle
  imports Main "HOL-Library.Word"
begin

section \<open>The process and its standard output\<close>

text \<open>
  Both programs are \<^verbatim>\<open>int main()\<close> functions: they receive neither the argument
  vector nor the environment, and their only effect is to append bytes to the standard
  output stream. A process is modelled by what the operating system hands to it; the
  library calls of the programs update the \<open>stdout\<close> field only, which holds the bytes
  the stream has taken. Characters are bytes, so the two emoji of the modules demo are four
  bytes each (UTF-8).
\<close>

record process =
  argv :: "string list"
  environ :: "(string \<times> string) list"
  stdin :: string
  stdout :: string

type_synonym c_int = "32 word"

type_synonym double = "64 word"

datatype fault = Signed_overflow | Format_mismatch | Uncaught_exception

text \<open>
  How a run of \<^verbatim>\<open>main\<close> ends: it returns a status, it stops in a fault (undefined
  behaviour, or an exception that leaves \<^verbatim>\<open>main\<close>), or it never ends.
\<close>

datatype status = Returned c_int | Faulted fault | Diverged

text \<open>
  What is behind the standard output decides on every write: it takes the bytes, it refuses
  them (a closed or full stream, no memory for the text; the call fails), or it blocks and
  the call does not come back (a stopped terminal, a pipe nobody reads). The answer may
  depend on the bytes taken so far and on the bytes offered.
\<close>

datatype answer = Accepted | Refused | Blocked

type_synonym sink = "string \<Rightarrow> string \<Rightarrow> answer"

definition always_accepts :: sink where
  "always_accepts out s = Accepted"

text \<open>A stream with room for \<open>n\<close> bytes, and one that is stopped.\<close>

definition full_after :: "nat \<Rightarrow> sink" where
  "full_after n out s = (if length out + length s \<le> n then Accepted else Refused)"

definition stopped :: sink where
  "stopped out s = Blocked"

text \<open>
  A library call gives the process after it, raises a fault, or does not come back. The
  statements of \<^verbatim>\<open>main\<close> run one after the other: \<open>and_then r p k\<close> goes on with \<open>k\<close>
  after a call that came back, and ends the run in \<open>p\<close>, the process before the call,
  otherwise.
\<close>

datatype 'a result = Ok 'a | Raised fault | Stuck

definition and_then ::
  "process result \<Rightarrow> process \<Rightarrow> (process \<Rightarrow> process \<times> status) \<Rightarrow> process \<times> status" where
  "and_then r p k =
     (case r of Ok p' \<Rightarrow> k p' | Raised f \<Rightarrow> (p, Faulted f) | Stuck \<Rightarrow> (p, Diverged))"

text \<open>The bytes a run has added to the standard output, and their division into lines.\<close>

definition written :: "process \<Rightarrow> process \<times> status \<Rightarrow> string" where
  "written p r = drop (length (stdout p)) (stdout (fst r))"

fun split_lines :: "string \<Rightarrow> string \<Rightarrow> string list" where
  "split_lines acc [] = (if acc = [] then [] else [acc])"
| "split_lines acc (c # cs) =
     (if c = CHR ''\<newline>'' then acc # split_lines [] cs else split_lines (acc @ [c]) cs)"

definition lines_of :: "string \<Rightarrow> string list" where
  "lines_of s = split_lines [] s"

section \<open>Decimal output of integers\<close>

definition digit :: "nat \<Rightarrow> char" where
  "digit n = ''0123456789'' ! n"

fun digits :: "nat \<Rightarrow> string" where
  "digits n = (if n < 10 then [digit n] else digits (n div 10) @ [digit (n mod 10)])"

declare digits.simps [simp del]

definition show_int :: "int \<Rightarrow> string" where
  "show_int i = (if i < 0 then CHR ''-'' # digits (nat (- i)) else digits (nat i))"

text \<open>
  Reading the printed numbers of a line back: every maximal run of decimal digits is one
  number. \<open>digit_value\<close> is the inverse of \<open>digit\<close>; the second argument of the scan is
  the number being read, if any.
\<close>

definition digit_value :: "char \<Rightarrow> nat option" where
  "digit_value c = map_of (zip ''0123456789'' [0, 1, 2, 3, 4, 5, 6, 7, 8, 9]) c"

fun scan_numbers :: "string \<Rightarrow> nat option \<Rightarrow> nat list" where
  "scan_numbers [] None = []"
| "scan_numbers [] (Some n) = [n]"
| "scan_numbers (c # cs) acc =
     (case digit_value c of
        Some v \<Rightarrow> scan_numbers cs (Some (10 * (case acc of None \<Rightarrow> 0 | Some n \<Rightarrow> n) + v))
      | None \<Rightarrow> (case acc of None \<Rightarrow> scan_numbers cs None | Some n \<Rightarrow> n # scan_numbers cs None))"

definition printed_numbers :: "string \<Rightarrow> nat list" where
  "printed_numbers s = scan_numbers s None"

section \<open>The C library calls of the package test\<close>

text \<open>
  \<^verbatim>\<open>std::puts(s)\<close> writes the string and a newline. When the write fails it returns
  \<^verbatim>\<open>EOF\<close>; the program does not look at the result, so the model gives the process only.
\<close>

definition puts :: "sink \<Rightarrow> string \<Rightarrow> process \<Rightarrow> process result" where
  "puts sink s p =
     (case sink (stdout p) (s @ ''\<newline>'') of
        Accepted \<Rightarrow> Ok (p\<lparr>stdout := stdout p @ s @ ''\<newline>''\<rparr>)
      | Refused \<Rightarrow> Ok p
      | Blocked \<Rightarrow> Stuck)"

text \<open>
  \<^verbatim>\<open>std::printf\<close> with the conversions the program uses: \<^verbatim>\<open>%d\<close> takes the next
  \<^verbatim>\<open>int\<close> argument and prints it in decimal, \<^verbatim>\<open>%%\<close> prints a percent sign, every
  other character is copied. A conversion without an argument, or one that is not modelled,
  gives \<open>None\<close> (undefined behaviour in C). When the write fails \<^verbatim>\<open>printf\<close> returns a
  negative number, which the program does not look at either.
\<close>

fun printf_format :: "string \<Rightarrow> c_int list \<Rightarrow> string option" where
  "printf_format [] args = Some []"
| "printf_format [c] args = (if c = CHR ''%'' then None else Some [c])"
| "printf_format (c # d # fmt) args =
     (if c \<noteq> CHR ''%'' then map_option ((#) c) (printf_format (d # fmt) args)
      else if d = CHR ''%'' then map_option ((#) d) (printf_format fmt args)
      else if d = CHR ''d'' then
        (case args of
           [] \<Rightarrow> None
         | a # args' \<Rightarrow> map_option ((@) (show_int (sint a))) (printf_format fmt args'))
      else None)"

definition printf :: "sink \<Rightarrow> string \<Rightarrow> c_int list \<Rightarrow> process \<Rightarrow> process result" where
  "printf sink fmt args p =
     (case printf_format fmt args of
        None \<Rightarrow> Raised Format_mismatch
      | Some s \<Rightarrow>
          (case sink (stdout p) s of
             Accepted \<Rightarrow> Ok (p\<lparr>stdout := stdout p @ s\<rparr>)
           | Refused \<Rightarrow> Ok p
           | Blocked \<Rightarrow> Stuck))"

text \<open>Addition of two \<^verbatim>\<open>int\<close>s: the sum when it is representable, no value otherwise.\<close>

definition add_int :: "c_int \<Rightarrow> c_int \<Rightarrow> c_int option" where
  "add_int x y =
     (if - (2 ^ 31) \<le> sint x + sint y \<and> sint x + sint y < 2 ^ 31 then Some (x + y) else None)"

section \<open>all/test\_package\_old/main.cpp\<close>

text \<open>
  \<^verbatim>\<open>
  int main()
  {
    int a = 5;
    int b = 12;
    int c = a + b;

    std::puts("Hello, world!");
    std::printf("a = %d, b = %d\n", a, b);
    std::printf("a + b = c = %d\n", c);

    return 0;
  }
  \<close>
\<close>

definition test_package_old_main_on :: "sink \<Rightarrow> process \<Rightarrow> process \<times> status" where
  "test_package_old_main_on sink p0 =
     (let a = (5 :: c_int);
          b = (12 :: c_int)
      in case add_int a b of
           None \<Rightarrow> (p0, Faulted Signed_overflow)
         | Some c \<Rightarrow>
             and_then (puts sink ''Hello, world!'' p0) p0 (\<lambda>p1.
             and_then (printf sink ''a = %d, b = %d\<newline>'' [a, b] p1) p1 (\<lambda>p2.
             and_then (printf sink ''a + b = c = %d\<newline>'' [c] p2) p2 (\<lambda>p3.
             (p3, Returned 0)))))"

text \<open>The run on a standard output that takes every write.\<close>

definition test_package_old_main :: "process \<Rightarrow> process \<times> status" where
  "test_package_old_main p0 = test_package_old_main_on always_accepts p0"

text \<open>
  What a sequence of writes of the C library leaves on the stream that held \<open>out\<close>, and
  whether one of them blocks: a refused write is skipped, the next one is tried.
\<close>

fun stdio_writes :: "sink \<Rightarrow> string \<Rightarrow> string list \<Rightarrow> string \<times> bool" where
  "stdio_writes sink out [] = (out, False)"
| "stdio_writes sink out (s # ss) =
     (case sink out s of
        Accepted \<Rightarrow> stdio_writes sink (out @ s) ss
      | Refused \<Rightarrow> stdio_writes sink out ss
      | Blocked \<Rightarrow> (out, True))"

text \<open>The three texts the package test writes, in the order of its calls.\<close>

definition test_package_old_texts :: "string list" where
  "test_package_old_texts =
     [''Hello, world!\<newline>'', ''a = 5, b = 12\<newline>'', ''a + b = c = 17\<newline>'']"

section \<open>Binary64 floating point\<close>

text \<open>
  A \<^verbatim>\<open>double\<close> is its 64 bits: the sign, eleven bits of biased exponent and 52 bits
  of fraction. The magnitude is the word without its sign bit; magnitudes are ordered as
  the absolute values they stand for, infinity is \<open>2047 * 2 ^ 52\<close> and everything above
  it is a NaN.
\<close>

definition sign_bit :: "double \<Rightarrow> bool" where
  "sign_bit d = (2 ^ 63 \<le> unat d)"

definition magnitude :: "double \<Rightarrow> nat" where
  "magnitude d = unat d mod 2 ^ 63"

definition infinity_bits :: nat where
  "infinity_bits = 2047 * 2 ^ 52"

definition mk_double :: "bool \<Rightarrow> nat \<Rightarrow> double" where
  "mk_double neg mag = word_of_nat ((if neg then 2 ^ 63 else 0) + mag)"

definition quiet_nan :: double where
  "quiet_nan = mk_double False (infinity_bits + 2 ^ 51)"

definition is_nan :: "double \<Rightarrow> bool" where
  "is_nan d = (infinity_bits < magnitude d)"

definition is_inf :: "double \<Rightarrow> bool" where
  "is_inf d = (magnitude d = infinity_bits)"

text \<open>
  A finite magnitude stands for \<open>significand * 2 ^ exponent\<close>; the leading bit of the
  significand is implicit unless the biased exponent is zero (subnormal numbers).
\<close>

definition significand :: "nat \<Rightarrow> nat" where
  "significand mag = (if mag div 2 ^ 52 = 0 then mag mod 2 ^ 52 else 2 ^ 52 + mag mod 2 ^ 52)"

definition exponent :: "nat \<Rightarrow> int" where
  "exponent mag = (if mag div 2 ^ 52 = 0 then - 1074 else int (mag div 2 ^ 52) - 1075)"

fun bit_length :: "nat \<Rightarrow> nat" where
  "bit_length n = (if n = 0 then 0 else Suc (bit_length (n div 2)))"

declare bit_length.simps [simp del]

text \<open>The integer part of the binary logarithm of the fraction \<open>n / d\<close>, both positive.\<close>

definition floor_log2 :: "nat \<Rightarrow> nat \<Rightarrow> int" where
  "floor_log2 n d =
     (let k = int (bit_length n) - int (bit_length d)
      in if d * 2 ^ nat k \<le> n * 2 ^ nat (- k) then k else k - 1)"

text \<open>
  Rounding to nearest, ties to even: the magnitude of the \<^verbatim>\<open>double\<close> nearest to the
  fraction \<open>n / d\<close> (with \<open>0 < d\<close>). The fraction is scaled to a significand of 53 bits (fewer for
  subnormal results), the remainder decides the rounding, and a carry out of the significand
  moves into the exponent field by the addition. Results beyond the largest finite number
  are infinity.
\<close>

definition round_mag :: "nat \<Rightarrow> nat \<Rightarrow> nat" where
  "round_mag n d =
     (if n = 0 then 0
      else let e = max (floor_log2 n d - 52) (- 1074);
               num = n * 2 ^ nat (- e);
               den = d * 2 ^ nat e;
               q = num div den;
               r = num mod den;
               q' = (if den < 2 * r \<or> (2 * r = den \<and> q mod 2 = 1) then q + 1 else q)
           in min (nat (e + 1074) * 2 ^ 52 + q') infinity_bits)"

text \<open>The magnitude of the \<^verbatim>\<open>double\<close> that the decimal \<open>m * 10 ^ s\<close> reads as.\<close>

definition mag_of_decimal :: "nat \<Rightarrow> int \<Rightarrow> nat" where
  "mag_of_decimal m s = round_mag (m * 10 ^ nat s) (10 ^ nat (- s))"

text \<open>A decimal literal of the source, such as \<^verbatim>\<open>7.2\<close> (\<open>72 * 10 ^ - 1\<close>).\<close>

definition double_literal :: "nat \<Rightarrow> int \<Rightarrow> double" where
  "double_literal m s = mk_double False (mag_of_decimal m s)"

definition signed_significand :: "double \<Rightarrow> int" where
  "signed_significand d =
     (if sign_bit d then - int (significand (magnitude d)) else int (significand (magnitude d)))"

text \<open>
  Addition of two \<^verbatim>\<open>double\<close>s: the exact sum of the two values, rounded once. Which
  NaN an invalid operation gives depends on the processor; the model gives the positive quiet
  NaN.
\<close>

definition double_add :: "double \<Rightarrow> double \<Rightarrow> double" where
  "double_add x y =
     (if is_nan x \<or> is_nan y then quiet_nan
      else if is_inf x then (if is_inf y \<and> sign_bit x \<noteq> sign_bit y then quiet_nan else x)
      else if is_inf y then y
      else let ex = exponent (magnitude x);
               ey = exponent (magnitude y);
               e = min ex ey;
               s = signed_significand x * 2 ^ nat (ex - e) + signed_significand y * 2 ^ nat (ey - e)
           in if s = 0 then mk_double (sign_bit x \<and> sign_bit y) 0
              else mk_double (s < 0) (round_mag (nat \<bar>s\<bar> * 2 ^ nat e) (2 ^ nat (- e))))"

section \<open>Shortest decimal output of a double\<close>

text \<open>
  \<^verbatim>\<open>std::println\<close> formats a \<^verbatim>\<open>double\<close> for \<^verbatim>\<open>{}\<close> as \<^verbatim>\<open>std::to_chars\<close> does
  without a precision: the shortest text, in fixed or in scientific notation, that reads
  back as the same \<^verbatim>\<open>double\<close>; among several of that length the one nearest to the
  value; fixed notation when both notations are equally long.

  \<open>candidate mag s\<close> is the multiple \<open>m * 10 ^ s\<close> of the power of ten that reads back as
  \<open>mag\<close>, if there is one: only the two multiples around the value can, and the nearer one
  is taken when both do.
\<close>

definition candidate :: "nat \<Rightarrow> int \<Rightarrow> nat option" where
  "candidate mag s =
     (let num = significand mag * 2 ^ nat (exponent mag) * 10 ^ nat (- s);
          den = 2 ^ nat (- exponent mag) * 10 ^ nat s;
          lo = num div den;
          r = num mod den;
          hi = (if r = 0 then lo else lo + 1);
          lo_ok = (mag_of_decimal lo s = mag);
          hi_ok = (mag_of_decimal hi s = mag)
      in if lo_ok \<and> hi_ok then Some (if 2 * r < den \<or> (2 * r = den \<and> lo mod 2 = 0) then lo else hi)
         else if lo_ok then Some lo
         else if hi_ok then Some hi
         else None)"

text \<open>
  The search for the fewest digits starts at a power of ten and goes down. A value of a
  \<^verbatim>\<open>double\<close> is a multiple of \<open>2 ^ - 1074\<close>, hence of \<open>10 ^ - 1074\<close>, where the search ends
  at the latest.
\<close>

function shortest :: "nat \<Rightarrow> int \<Rightarrow> nat \<times> int" where
  "shortest mag s =
     (case candidate mag s of
        Some m \<Rightarrow> (m, s)
      | None \<Rightarrow>
          if s \<le> - 1074
          then (significand mag * 2 ^ nat (exponent mag) * 10 ^ nat (- s)
                  div (2 ^ nat (- exponent mag) * 10 ^ nat s), s)
          else shortest mag (s - 1))"
  by pat_completeness auto
termination
  by (relation "measure (\<lambda>(mag, s). nat (s + 1074))") auto

declare shortest.simps [simp del]

function lead_zeros :: "nat \<Rightarrow> nat \<Rightarrow> nat \<Rightarrow> nat" where
  "lead_zeros n d j = (if d \<le> n * 10 ^ j \<or> 400 \<le> j then j else lead_zeros n d (Suc j))"
  by pat_completeness auto
termination
  by (relation "measure (\<lambda>(n, d, j). 400 - j)") auto

declare lead_zeros.simps [simp del]

text \<open>The decimal exponent of a positive finite magnitude: the power of ten of its first digit.\<close>

definition floor_log10 :: "nat \<Rightarrow> int" where
  "floor_log10 mag =
     (let n = significand mag * 2 ^ nat (exponent mag);
          d = 2 ^ nat (- exponent mag)
      in if d \<le> n then int (length (digits (n div d))) - 1 else - int (lead_zeros n d 1))"

definition render_fixed :: "nat \<Rightarrow> nat \<Rightarrow> string" where
  "render_fixed m p =
     digits (m div 10 ^ p) @
     (if p = 0 then []
      else CHR ''.'' # replicate (p - length (digits (m mod 10 ^ p))) CHR ''0'' @
           digits (m mod 10 ^ p))"

function strip_zeros :: "nat \<Rightarrow> int \<Rightarrow> nat \<times> int" where
  "strip_zeros m s = (if m \<noteq> 0 \<and> m mod 10 = 0 then strip_zeros (m div 10) (s + 1) else (m, s))"
  by pat_completeness auto
termination
  by (relation "measure (\<lambda>(m, s). m)") auto

declare strip_zeros.simps [simp del]

definition render_exponent :: "int \<Rightarrow> string" where
  "render_exponent x =
     CHR ''e'' # (if x < 0 then CHR ''-'' else CHR ''+'') #
     (if \<bar>x\<bar> < 10 then CHR ''0'' # digits (nat \<bar>x\<bar>) else digits (nat \<bar>x\<bar>))"

definition render_scientific :: "nat \<Rightarrow> int \<Rightarrow> string" where
  "render_scientific m s =
     (let ds = digits m
      in hd ds # (if tl ds = [] then [] else CHR ''.'' # tl ds) @
         render_exponent (s + int (length ds) - 1))"

definition to_chars :: "double \<Rightarrow> string" where
  "to_chars d =
     (if sign_bit d then ''-'' else []) @
     (if is_nan d then ''nan''
      else if is_inf d then ''inf''
      else if magnitude d = 0 then ''0''
      else let mag = magnitude d;
               f = shortest mag 0;
               fixed = render_fixed (fst f) (nat (- snd f));
               e = shortest mag (floor_log10 mag);
               e' = strip_zeros (fst e) (snd e);
               scientific = render_scientific (fst e') (snd e')
           in if length fixed \<le> length scientific then fixed else scientific)"

section \<open>The C++ library calls of the modules demo\<close>

text \<open>
  An argument of \<^verbatim>\<open>std::println\<close> and its text for the replacement field \<^verbatim>\<open>{}\<close>.
\<close>

datatype format_arg = Int_arg c_int | Double_arg double

fun formatter :: "format_arg \<Rightarrow> string" where
  "formatter (Int_arg i) = show_int (sint i)"
| "formatter (Double_arg d) = to_chars d"

text \<open>
  The format string: \<^verbatim>\<open>{}\<close> is replaced by the next argument, \<^verbatim>\<open>{{\<close> and \<^verbatim>\<open>}}\<close>
  stand for one brace, every other character is copied. The compiler checks the format
  string against the arguments, so that a replacement field always finds its argument; the
  function copies a field for which none is left.
\<close>

fun vformat :: "string \<Rightarrow> format_arg list \<Rightarrow> string" where
  "vformat [] args = []"
| "vformat [c] args = [c]"
| "vformat (c # d # fmt) args =
     (if c = CHR ''{'' \<and> d = CHR ''}'' then
        (case args of
           [] \<Rightarrow> c # d # vformat fmt []
         | a # args' \<Rightarrow> formatter a @ vformat fmt args')
      else if (c = CHR ''{'' \<and> d = CHR ''{'') \<or> (c = CHR ''}'' \<and> d = CHR ''}'')
      then c # vformat fmt args
      else c # vformat (d # fmt) args)"

text \<open>
  \<^verbatim>\<open>std::println(fmt, args...)\<close> writes the formatted text and a newline. When the
  write fails it throws \<^verbatim>\<open>std::system_error\<close>, and it may throw \<^verbatim>\<open>std::bad_alloc\<close>;
  \<^verbatim>\<open>main\<close> has no handler, so either exception leaves it.
\<close>

definition println :: "sink \<Rightarrow> string \<Rightarrow> format_arg list \<Rightarrow> process \<Rightarrow> process result" where
  "println sink fmt args p =
     (case sink (stdout p) (vformat fmt args @ ''\<newline>'') of
        Accepted \<Rightarrow> Ok (p\<lparr>stdout := stdout p @ vformat fmt args @ ''\<newline>''\<rparr>)
      | Refused \<Rightarrow> Raised Uncaught_exception
      | Blocked \<Rightarrow> Stuck)"

section \<open>The imported module\<close>

text \<open>
  Modelled from the spec: the module \<^verbatim>\<open>test_module\<close> that \<^verbatim>\<open>main.cpp\<close> imports is not
  among the sources. The spec describes \<^verbatim>\<open>test::sum\<close> as a callable that accepts two numeric
  arguments of matching type and returns their sum, and leaves its implementation open. The
  program calls it once with two \<^verbatim>\<open>int\<close>s and once with two \<^verbatim>\<open>double\<close>s, so the module
  is a parameter with one function for each call; a call returns a value of the type of its
  arguments, throws, or does not come back. The module has no access to the streams.
\<close>

datatype 'a call = Normal 'a | Throws | Hangs

record test_module =
  sum_int :: "c_int \<Rightarrow> c_int \<Rightarrow> c_int call"
  sum_double :: "double \<Rightarrow> double \<Rightarrow> double call"

text \<open>
  What the claims suppose of a call: that it returns, that it ends (by a value or by an
  exception), that its value is the sum of its arguments: of two \<^verbatim>\<open>int\<close>s the sum of
  the integers, of two \<^verbatim>\<open>double\<close>s the floating-point sum.
\<close>

definition returns :: "'a call \<Rightarrow> bool" where
  "returns c = (case c of Normal r \<Rightarrow> True | Throws \<Rightarrow> False | Hangs \<Rightarrow> False)"

definition terminates :: "'a call \<Rightarrow> bool" where
  "terminates c = (case c of Normal r \<Rightarrow> True | Throws \<Rightarrow> True | Hangs \<Rightarrow> False)"

definition is_sum_int :: "c_int \<Rightarrow> c_int \<Rightarrow> c_int call \<Rightarrow> bool" where
  "is_sum_int x y c =
     (case c of Normal r \<Rightarrow> sint r = sint x + sint y | Throws \<Rightarrow> False | Hangs \<Rightarrow> False)"

definition is_sum_double :: "double \<Rightarrow> double \<Rightarrow> double call \<Rightarrow> bool" where
  "is_sum_double x y c = (c = Normal (double_add x y))"

section \<open>demos/cpp-modules/main.cpp\<close>

text \<open>
  \<^verbatim>\<open>
  int main()
  {
    std::println("\n========== RUNNING MODULES DEMO ==========");
    std::println("GNU Toolchain Demo!");
    std::println("<U+1F44B> Hello, <U+1F310> World");
    std::println("sum(5, 6) = {}", test::sum(5, 6));
    std::println("sum(7.2, 2.5) = {}", test::sum(7.2, 2.5));
    std::println("========== DEMO FINISHED ==========\n");
    return 0;
  }
  \<close>
  The third string holds the waving hand and the globe with meridians, in UTF-8.
\<close>

definition waving_hand :: string where
  "waving_hand = [CHR 0xF0, CHR 0x9F, CHR 0x91, CHR 0x8B]"

definition globe :: string where
  "globe = [CHR 0xF0, CHR 0x9F, CHR 0x8C, CHR 0x90]"

definition cpp_modules_main_on :: "sink \<Rightarrow> test_module \<Rightarrow> process \<Rightarrow> process \<times> status" where
  "cpp_modules_main_on sink m p0 =
     and_then (println sink ''\<newline>========== RUNNING MODULES DEMO =========='' [] p0) p0 (\<lambda>p1.
     and_then (println sink ''GNU Toolchain Demo!'' [] p1) p1 (\<lambda>p2.
     and_then (println sink (waving_hand @ '' Hello, '' @ globe @ '' World'') [] p2) p2 (\<lambda>p3.
     case sum_int m 5 6 of
       Throws \<Rightarrow> (p3, Faulted Uncaught_exception)
     | Hangs \<Rightarrow> (p3, Diverged)
     | Normal r1 \<Rightarrow>
     and_then (println sink ''sum(5, 6) = {}'' [Int_arg r1] p3) p3 (\<lambda>p4.
     case sum_double m (double_literal 72 (- 1)) (double_literal 25 (- 1)) of
       Throws \<Rightarrow> (p4, Faulted Uncaught_exception)
     | Hangs \<Rightarrow> (p4, Diverged)
     | Normal r2 \<Rightarrow>
     and_then (println sink ''sum(7.2, 2.5) = {}'' [Double_arg r2] p4) p4 (\<lambda>p5.
     and_then (println sink ''========== DEMO FINISHED ==========\<newline>'' [] p5) p5 (\<lambda>p6.
     (p6, Returned 0)))))))"

text \<open>The run on a standard output that takes every write.\<close>

definition cpp_modules_main :: "test_module \<Rightarrow> process \<Rightarrow> process \<times> status" where
  "cpp_modules_main m p0 = cpp_modules_main_on always_accepts m p0"

text \<open>
  What a sequence of \<^verbatim>\<open>std::println\<close> writes leaves on the stream that held \<open>out\<close>, and
  the answer that ended it: the first write that is not taken ends the sequence.
\<close>

fun print_writes :: "sink \<Rightarrow> string \<Rightarrow> string list \<Rightarrow> string \<times> answer" where
  "print_writes sink out [] = (out, Accepted)"
| "print_writes sink out (s # ss) =
     (case sink out s of
        Accepted \<Rightarrow> print_writes sink (out @ s) ss
      | Refused \<Rightarrow> (out, Refused)
      | Blocked \<Rightarrow> (out, Blocked))"

text \<open>
  The texts the modules demo offers to the stream, in the order of its calls: three banner
  lines, a line after each call of \<^verbatim>\<open>test::sum\<close> that returns, and the closing banner
  after the second. \<open>calls_status\<close> is how the run ends when every one of them is taken.
\<close>

definition cpp_modules_texts :: "test_module \<Rightarrow> string list" where
  "cpp_modules_texts m =
     [''\<newline>========== RUNNING MODULES DEMO ==========\<newline>'',
      ''GNU Toolchain Demo!\<newline>'',
      waving_hand @ '' Hello, '' @ globe @ '' World\<newline>''] @
     (case sum_int m 5 6 of
        Throws \<Rightarrow> []
      | Hangs \<Rightarrow> []
      | Normal r1 \<Rightarrow>
          (''sum(5, 6) = '' @ show_int (sint r1) @ ''\<newline>'') #
          (case sum_double m (double_literal 72 (- 1)) (double_literal 25 (- 1)) of
             Throws \<Rightarrow> []
           | Hangs \<Rightarrow> []
           | Normal r2 \<Rightarrow>
               [''sum(7.2, 2.5) = '' @ to_chars r2 @ ''\<newline>'',
                ''========== DEMO FINISHED ==========\<newline>\<newline>'']))"

definition calls_status :: "test_module \<Rightarrow> status" where
  "calls_status m =
     (case sum_int m 5 6 of
        Throws \<Rightarrow> Faulted Uncaught_exception
      | Hangs \<Rightarrow> Diverged
      | Normal r1 \<Rightarrow>
          (case sum_double m (double_literal 72 (- 1)) (double_literal 25 (- 1)) of
             Throws \<Rightarrow> Faulted Uncaught_exception
           | Hangs \<Rightarrow> Diverged
           | Normal r2 \<Rightarrow> Returned 0))"

text \<open>
  A module as the spec describes it: both functions return the sum of their arguments (the
  sum of two \<^verbatim>\<open>int\<close>s as the processor computes it).
\<close>

definition reference_module :: test_module where
  "reference_module =
     \<lparr>sum_int = (\<lambda>x y. Normal (x + y)),
      sum_double = (\<lambda>x y. Normal (double_add x y))\<rparr>"

definition empty_process :: process where
  "empty_process = \<lparr>argv = [], environ = [], stdin = [], stdout = []\<rparr>"

section \<open>Evaluation lemmas\<close>

lemma digits_5: "digits 5 = ''5''"
  by (simp add: digits.simps digit_def)

lemma digits_12: "digits 12 = ''12''"
  by (simp add: digits.simps digit_def)

lemma digits_17: "digits 17 = ''17''"
  by (simp add: digits.simps digit_def)

lemma test_package_old_main_eval:
  "test_package_old_main p =
     (p\<lparr>stdout := stdout p @ ''Hello, world!\<newline>a = 5, b = 12\<newline>a + b = c = 17\<newline>''\<rparr>,
      Returned 0)"
  by (simp add: test_package_old_main_def test_package_old_main_on_def always_accepts_def
      and_then_def add_int_def puts_def printf_def show_int_def digits_5 digits_12 digits_17)

lemma test_package_old_main_on_eval:
  "test_package_old_main_on sink p =
     (p\<lparr>stdout := fst (stdio_writes sink (stdout p) test_package_old_texts)\<rparr>,
      if snd (stdio_writes sink (stdout p) test_package_old_texts) then Diverged
      else Returned 0)"
  by (simp add: test_package_old_main_on_def and_then_def add_int_def puts_def printf_def
      show_int_def digits_5 digits_12 digits_17 test_package_old_texts_def
      split: answer.splits)

subsection \<open>The two literals, their sum and its text\<close>

lemma literal_7_2: "double_literal 72 (- 1) = 0x401CCCCCCCCCCCCD"
  by (simp add: double_literal_def mag_of_decimal_def round_mag_def floor_log2_def
      bit_length.simps mk_double_def infinity_bits_def Let_def)

lemma literal_2_5: "double_literal 25 (- 1) = 0x4004000000000000"
  by (simp add: double_literal_def mag_of_decimal_def round_mag_def floor_log2_def
      bit_length.simps mk_double_def infinity_bits_def Let_def)

lemma add_7_2_2_5: "double_add 0x401CCCCCCCCCCCCD 0x4004000000000000 = 0x4023666666666666"
  by (simp add: double_add_def is_nan_def is_inf_def magnitude_def sign_bit_def exponent_def
      significand_def signed_significand_def round_mag_def floor_log2_def
      bit_length.simps mk_double_def infinity_bits_def Let_def)

lemma magnitude_9_7: "magnitude 0x4023666666666666 = 4621650232602945126"
  by (simp add: magnitude_def)

lemma significand_9_7: "significand 4621650232602945126 = 5460614548186726"
  by (simp add: significand_def)

lemma exponent_9_7: "exponent 4621650232602945126 = - 49"
  by (simp add: exponent_def)

lemma reads_9: "mag_of_decimal 9 0 = 4621256167635550208"
  by (simp add: mag_of_decimal_def round_mag_def floor_log2_def bit_length.simps
      infinity_bits_def Let_def)

lemma reads_10: "mag_of_decimal 10 0 = 4621819117588971520"
  by (simp add: mag_of_decimal_def round_mag_def floor_log2_def bit_length.simps
      infinity_bits_def Let_def)

lemma reads_9_6: "mag_of_decimal 96 (- 1) = 4621593937607602995"
  by (simp add: mag_of_decimal_def round_mag_def floor_log2_def bit_length.simps
      infinity_bits_def Let_def)

lemma reads_9_7: "mag_of_decimal 97 (- 1) = 4621650232602945126"
  by (simp add: mag_of_decimal_def round_mag_def floor_log2_def bit_length.simps
      infinity_bits_def Let_def)

lemma candidate_9_7_units: "candidate 4621650232602945126 0 = None"
  by (simp add: candidate_def significand_9_7 exponent_9_7 reads_9 reads_10 Let_def)

lemma candidate_9_7_tenths: "candidate 4621650232602945126 (- 1) = Some 97"
  by (simp add: candidate_def significand_9_7 exponent_9_7 reads_9_6 reads_9_7 Let_def)

lemma shortest_9_7: "shortest 4621650232602945126 0 = (97, - 1)"
  by (simp add: shortest.simps [of _ 0] shortest.simps [of _ "- 1"]
      candidate_9_7_units candidate_9_7_tenths)

lemma floor_log10_9_7: "floor_log10 4621650232602945126 = 0"
  by (simp add: floor_log10_def significand_9_7 exponent_9_7 digits.simps Let_def)

lemma strip_zeros_97: "strip_zeros 97 (- 1) = (97, - 1)"
  by (simp add: strip_zeros.simps)

lemma render_fixed_97: "render_fixed 97 (Suc 0) = ''9.7''"
  by (simp add: render_fixed_def digits.simps digit_def)

lemma render_scientific_97: "render_scientific 97 (- 1) = ''9.7e+00''"
  by (simp add: render_scientific_def render_exponent_def digits.simps digit_def Let_def)

lemma to_chars_9_7: "to_chars 0x4023666666666666 = ''9.7''"
  by (simp add: to_chars_def is_nan_def is_inf_def sign_bit_def magnitude_9_7 shortest_9_7
      floor_log10_9_7 strip_zeros_97 render_fixed_97 render_scientific_97
      infinity_bits_def Let_def)

lemma digits_11: "digits 11 = ''11''"
  by (simp add: digits.simps digit_def)

subsection \<open>Two further values\<close>

text \<open>
  The literal \<^verbatim>\<open>0.1\<close> is not a binary fraction and prints as \<^verbatim>\<open>0.1\<close>; \<^verbatim>\<open>1e22\<close>
  prints in scientific notation, which is shorter than its 23 digits.
\<close>

lemma literal_0_1: "double_literal 1 (- 1) = 0x3FB999999999999A"
  by (simp add: double_literal_def mag_of_decimal_def round_mag_def floor_log2_def
      bit_length.simps mk_double_def infinity_bits_def Let_def)

lemma magnitude_0_1: "magnitude 0x3FB999999999999A = 4591870180066957722"
  by (simp add: magnitude_def)

lemma significand_0_1: "significand 4591870180066957722 = 7205759403792794"
  by (simp add: significand_def)

lemma exponent_0_1: "exponent 4591870180066957722 = - 56"
  by (simp add: exponent_def)

lemma reads_0: "mag_of_decimal 0 s = 0"
  by (simp add: mag_of_decimal_def round_mag_def)

lemma reads_1: "mag_of_decimal (Suc 0) 0 = 4607182418800017408"
  by (simp add: mag_of_decimal_def round_mag_def floor_log2_def bit_length.simps
      infinity_bits_def Let_def)

lemma reads_0_1: "mag_of_decimal (Suc 0) (- 1) = 4591870180066957722"
  by (simp add: mag_of_decimal_def round_mag_def floor_log2_def bit_length.simps
      infinity_bits_def Let_def)

lemma reads_0_2: "mag_of_decimal 2 (- 1) = 4596373779694328218"
  by (simp add: mag_of_decimal_def round_mag_def floor_log2_def bit_length.simps
      infinity_bits_def Let_def)

lemma candidate_0_1_units: "candidate 4591870180066957722 0 = None"
  by (simp add: candidate_def significand_0_1 exponent_0_1 reads_0 reads_1 Let_def)

lemma candidate_0_1_tenths: "candidate 4591870180066957722 (- 1) = Some 1"
  by (simp add: candidate_def significand_0_1 exponent_0_1 reads_0_1 reads_0_2 Let_def)

lemma shortest_0_1: "shortest 4591870180066957722 0 = (1, - 1)"
  by (simp add: shortest.simps [of _ 0] shortest.simps [of _ "- 1"]
      candidate_0_1_units candidate_0_1_tenths)

lemma shortest_0_1_tenths: "shortest 4591870180066957722 (- 1) = (1, - 1)"
  by (simp add: shortest.simps [of _ "- 1"] candidate_0_1_tenths)

lemma floor_log10_0_1: "floor_log10 4591870180066957722 = - 1"
  by (simp add: floor_log10_def significand_0_1 exponent_0_1 lead_zeros.simps Let_def)

lemma strip_zeros_1: "strip_zeros (Suc 0) s = (Suc 0, s)"
  by (simp add: strip_zeros.simps)

lemma render_fixed_0_1: "render_fixed (Suc 0) (Suc 0) = ''0.1''"
  by (simp add: render_fixed_def digits.simps digit_def)

lemma render_scientific_0_1: "render_scientific (Suc 0) (- 1) = ''1e-01''"
  by (simp add: render_scientific_def render_exponent_def digits.simps digit_def Let_def)

lemma to_chars_0_1: "to_chars (double_literal 1 (- 1)) = ''0.1''"
  unfolding literal_0_1
  by (simp add: to_chars_def is_nan_def is_inf_def sign_bit_def magnitude_0_1
      shortest_0_1 shortest_0_1_tenths floor_log10_0_1 strip_zeros_1 render_fixed_0_1
      render_scientific_0_1 infinity_bits_def Let_def)

lemma literal_1e22: "double_literal 1 22 = 0x4480F0CF064DD592"
  by (simp add: double_literal_def mag_of_decimal_def round_mag_def floor_log2_def
      bit_length.simps mk_double_def infinity_bits_def Let_def)

lemma magnitude_1e22: "magnitude 0x4480F0CF064DD592 = 4936209963552724370"
  by (simp add: magnitude_def)

lemma significand_1e22: "significand 4936209963552724370 = 4768371582031250"
  by (simp add: significand_def)

lemma exponent_1e22: "exponent 4936209963552724370 = 21"
  by (simp add: exponent_def)

lemma reads_1e22: "mag_of_decimal (Suc 0) 22 = 4936209963552724370"
  by (simp add: mag_of_decimal_def round_mag_def floor_log2_def bit_length.simps
      infinity_bits_def Let_def)

lemma reads_1e22_units: "mag_of_decimal 10000000000000000000000 0 = 4936209963552724370"
  by (simp add: mag_of_decimal_def round_mag_def floor_log2_def bit_length.simps
      infinity_bits_def Let_def)

lemma candidate_1e22_units: "candidate 4936209963552724370 0 = Some 10000000000000000000000"
  by (simp add: candidate_def significand_1e22 exponent_1e22 reads_1e22_units Let_def)

lemma candidate_1e22: "candidate 4936209963552724370 22 = Some 1"
  by (simp add: candidate_def significand_1e22 exponent_1e22 reads_1e22 Let_def)

lemma floor_log10_1e22: "floor_log10 4936209963552724370 = 22"
  by (simp add: floor_log10_def significand_1e22 exponent_1e22 digits.simps Let_def)

lemma shortest_1e22_units: "shortest 4936209963552724370 0 = (10000000000000000000000, 0)"
  by (simp add: shortest.simps [of _ 0] candidate_1e22_units)

lemma shortest_1e22: "shortest 4936209963552724370 22 = (1, 22)"
  by (simp add: shortest.simps [of _ 22] candidate_1e22)

lemma render_fixed_1e22: "render_fixed 10000000000000000000000 0 = ''10000000000000000000000''"
  by (simp add: render_fixed_def digits.simps digit_def)

lemma render_scientific_1e22: "render_scientific (Suc 0) 22 = ''1e+22''"
  by (simp add: render_scientific_def render_exponent_def digits.simps digit_def Let_def)

lemma to_chars_1e22: "to_chars (double_literal 1 22) = ''1e+22''"
  unfolding literal_1e22
  by (simp add: to_chars_def is_nan_def is_inf_def sign_bit_def magnitude_1e22
      shortest_1e22_units shortest_1e22 floor_log10_1e22 strip_zeros_1 render_fixed_1e22
      render_scientific_1e22 infinity_bits_def Let_def)

subsection \<open>Lines\<close>

lemma split_lines_line:
  "CHR ''\<newline>'' \<notin> set s \<Longrightarrow>
   split_lines acc (s @ CHR ''\<newline>'' # rest) = (acc @ s) # split_lines [] rest"
  by (induction s arbitrary: acc) auto

lemma lines_of_line:
  "CHR ''\<newline>'' \<notin> set s \<Longrightarrow> lines_of (s @ CHR ''\<newline>'' # rest) = s # lines_of rest"
  by (simp add: lines_of_def split_lines_line)

subsection \<open>The formatters write no newline\<close>

lemma digit_range: "n < 10 \<Longrightarrow> digit n \<in> set ''0123456789''"
  unfolding digit_def by (rule nth_mem) simp

lemma digits_range: "set (digits n) \<subseteq> set ''0123456789''"
proof (induction n rule: digits.induct)
  case (1 n)
  show ?case
  proof (cases "n < 10")
    case True
    then show ?thesis
      using digit_range [of n] by (subst digits.simps) simp
  next
    case False
    have "digit (n mod 10) \<in> set ''0123456789''"
      by (rule digit_range) simp
    with False "1.IH" show ?thesis
      by (subst digits.simps) simp
  qed
qed

lemma digits_no_newline: "CHR ''\<newline>'' \<notin> set (digits n)"
  using digits_range [of n] by auto

lemma digits_not_Nil: "digits n \<noteq> []"
  by (subst digits.simps) simp

lemma show_int_no_newline: "CHR ''\<newline>'' \<notin> set (show_int i)"
  by (simp add: show_int_def digits_no_newline)

lemma render_fixed_no_newline: "CHR ''\<newline>'' \<notin> set (render_fixed m p)"
  by (simp add: render_fixed_def digits_no_newline)

lemma render_exponent_no_newline: "CHR ''\<newline>'' \<notin> set (render_exponent x)"
  by (simp add: render_exponent_def digits_no_newline)

lemma render_scientific_no_newline: "CHR ''\<newline>'' \<notin> set (render_scientific m s)"
proof -
  have "hd (digits m) \<in> set (digits m)"
    by (rule hd_in_set) (rule digits_not_Nil)
  then have h: "hd (digits m) \<noteq> CHR ''\<newline>''"
    using digits_no_newline [of m] by metis
  have "set (tl (digits m)) \<subseteq> set (digits m)"
    using digits_not_Nil [of m] by (auto dest: list.set_sel(2))
  then have t: "CHR ''\<newline>'' \<notin> set (tl (digits m))"
    using digits_no_newline [of m] by blast
  from h t show ?thesis
    by (simp add: render_scientific_def Let_def render_exponent_no_newline)
qed

lemma to_chars_no_newline: "CHR ''\<newline>'' \<notin> set (to_chars d)"
  by (simp add: to_chars_def Let_def render_fixed_no_newline render_scientific_no_newline)

subsection \<open>The runs\<close>

lemma cpp_modules_main_eval:
  assumes "sum_int m 5 6 = Normal r1"
    and "sum_double m (double_literal 72 (- 1)) (double_literal 25 (- 1)) = Normal r2"
  shows "cpp_modules_main m p =
     (p\<lparr>stdout := stdout p @
        ''\<newline>========== RUNNING MODULES DEMO ==========\<newline>'' @
        ''GNU Toolchain Demo!\<newline>'' @
        waving_hand @ '' Hello, '' @ globe @ '' World\<newline>'' @
        ''sum(5, 6) = '' @ show_int (sint r1) @ ''\<newline>'' @
        ''sum(7.2, 2.5) = '' @ to_chars r2 @ ''\<newline>'' @
        ''========== DEMO FINISHED ==========\<newline>\<newline>''\<rparr>,
      Returned 0)"
  using assms
  by (simp add: cpp_modules_main_def cpp_modules_main_on_def always_accepts_def and_then_def
      println_def waving_hand_def globe_def)

lemma cpp_modules_main_on_eval:
  "cpp_modules_main_on sink m p =
     (p\<lparr>stdout := fst (print_writes sink (stdout p) (cpp_modules_texts m))\<rparr>,
      case snd (print_writes sink (stdout p) (cpp_modules_texts m)) of
        Accepted \<Rightarrow> calls_status m
      | Refused \<Rightarrow> Faulted Uncaught_exception
      | Blocked \<Rightarrow> Diverged)"
  by (cases "sum_int m 5 6";
      cases "sum_double m (double_literal 72 (- 1)) (double_literal 25 (- 1))")
    (simp_all add: cpp_modules_main_on_def and_then_def println_def cpp_modules_texts_def
      calls_status_def waving_hand_def globe_def split: answer.splits)

lemma cpp_modules_main_frame:
  "\<exists>w st. \<forall>p. cpp_modules_main m p = (p\<lparr>stdout := stdout p @ w\<rparr>, st)"
proof (cases "sum_int m 5 6")
  case (Normal r1)
  show ?thesis
  proof (cases "sum_double m (double_literal 72 (- 1)) (double_literal 25 (- 1))")
    case (Normal r2)
    show ?thesis
      using cpp_modules_main_eval [OF \<open>sum_int m 5 6 = Normal r1\<close> Normal] by blast
  next
    case Throws
    with Normal show ?thesis
      by (simp add: cpp_modules_main_def cpp_modules_main_on_def always_accepts_def
          and_then_def println_def) blast
  next
    case Hangs
    with Normal show ?thesis
      by (simp add: cpp_modules_main_def cpp_modules_main_on_def always_accepts_def
          and_then_def println_def) blast
  qed
next
  case Throws
  then show ?thesis
    by (simp add: cpp_modules_main_def cpp_modules_main_on_def always_accepts_def
        and_then_def println_def) blast
next
  case Hangs
  then show ?thesis
    by (simp add: cpp_modules_main_def cpp_modules_main_on_def always_accepts_def
        and_then_def println_def) blast
qed

lemma written_append: "written p (p\<lparr>stdout := stdout p @ w\<rparr>, st) = w"
  by (simp add: written_def)

lemma written_test_package_old:
  "written p (test_package_old_main p) =
     ''Hello, world!\<newline>a = 5, b = 12\<newline>a + b = c = 17\<newline>''"
  by (simp add: test_package_old_main_eval written_def)

lemma lines_test_package_old:
  "lines_of (written p (test_package_old_main p)) =
     [''Hello, world!'', ''a = 5, b = 12'', ''a + b = c = 17'']"
  by (simp add: written_test_package_old lines_of_def)

lemma returns_Normal: "returns c \<Longrightarrow> \<exists>r. c = Normal r"
  by (cases c) (simp_all add: returns_def)

lemma lines_cpp_modules:
  assumes "sum_int m 5 6 = Normal r1"
    and "sum_double m (double_literal 72 (- 1)) (double_literal 25 (- 1)) = Normal r2"
  shows "lines_of (written p (cpp_modules_main m p)) =
     [[],
      ''========== RUNNING MODULES DEMO =========='',
      ''GNU Toolchain Demo!'',
      [CHR 0xF0, CHR 0x9F, CHR 0x91, CHR 0x8B] @ '' Hello, '' @
        [CHR 0xF0, CHR 0x9F, CHR 0x8C, CHR 0x90] @ '' World'',
      ''sum(5, 6) = '' @ show_int (sint r1),
      ''sum(7.2, 2.5) = '' @ to_chars r2,
      ''========== DEMO FINISHED =========='',
      []]"
proof -
  have tail: "lines_of (''========== DEMO FINISHED ==========\<newline>\<newline>'') =
      [''========== DEMO FINISHED =========='', []]"
    by (simp add: lines_of_def)
  have l6: "lines_of ((''sum(7.2, 2.5) = '' @ to_chars r2) @ CHR ''\<newline>'' #
        ''========== DEMO FINISHED ==========\<newline>\<newline>'') =
      (''sum(7.2, 2.5) = '' @ to_chars r2) # [''========== DEMO FINISHED =========='', []]"
    by (subst lines_of_line) (simp_all add: to_chars_no_newline tail)
  have l5: "lines_of ((''sum(5, 6) = '' @ show_int (sint r1)) @ CHR ''\<newline>'' # rest) =
      (''sum(5, 6) = '' @ show_int (sint r1)) # lines_of rest" for rest
    by (rule lines_of_line) (simp add: show_int_no_newline)
  have l4: "lines_of ((waving_hand @ '' Hello, '' @ globe @ '' World'') @ CHR ''\<newline>'' # rest) =
      (waving_hand @ '' Hello, '' @ globe @ '' World'') # lines_of rest" for rest
    by (rule lines_of_line) (simp add: waving_hand_def globe_def)
  have l3: "lines_of (''GNU Toolchain Demo!'' @ CHR ''\<newline>'' # rest) =
      ''GNU Toolchain Demo!'' # lines_of rest" for rest
    by (rule lines_of_line) simp
  have l2: "lines_of (''========== RUNNING MODULES DEMO =========='' @ CHR ''\<newline>'' # rest) =
      ''========== RUNNING MODULES DEMO =========='' # lines_of rest" for rest
    by (rule lines_of_line) simp
  have l1: "lines_of ([] @ CHR ''\<newline>'' # rest) = [] # lines_of rest" for rest
    by (rule lines_of_line) simp
  have w: "written p (cpp_modules_main m p) =
      [] @ CHR ''\<newline>'' #
      ''========== RUNNING MODULES DEMO =========='' @ CHR ''\<newline>'' #
      ''GNU Toolchain Demo!'' @ CHR ''\<newline>'' #
      (waving_hand @ '' Hello, '' @ globe @ '' World'') @ CHR ''\<newline>'' #
      (''sum(5, 6) = '' @ show_int (sint r1)) @ CHR ''\<newline>'' #
      (''sum(7.2, 2.5) = '' @ to_chars r2) @ CHR ''\<newline>'' #
      ''========== DEMO FINISHED ==========\<newline>\<newline>''"
    by (simp add: cpp_modules_main_eval [OF assms] written_def)
  show ?thesis
    unfolding w l1 l2 l3 l4 l5 l6 by (simp add: waving_hand_def globe_def)
qed

section \<open>The claims\<close>

text \<open>
  \<open>test_package_old_main\<close> and \<open>cpp_modules_main\<close> are the runs on a standard output that
  takes every write; \<open>test_package_old_main_on\<close> and \<open>cpp_modules_main_on\<close> are the runs on
  any stream.
\<close>

text \<open>
  Claim C1. Whatever the process is started with, the package test writes exactly the three
  lines \<^verbatim>\<open>Hello, world!\<close>, \<^verbatim>\<open>a = 5, b = 12\<close> and \<^verbatim>\<open>a + b = c = 17\<close>, in
  this order, each ended by a newline, and nothing else.
\<close>

theorem test_package_old_output:
  "written p (test_package_old_main p) =
     ''Hello, world!\<newline>a = 5, b = 12\<newline>a + b = c = 17\<newline>'' \<and>
   lines_of (written p (test_package_old_main p)) =
     [''Hello, world!'', ''a = 5, b = 12'', ''a + b = c = 17'']"
  using written_test_package_old [of p] lines_test_package_old [of p] by (rule conjI)

theorem test_package_old_output_witness:
  "stdout (fst (test_package_old_main empty_process)) =
     ''Hello, world!\<newline>a = 5, b = 12\<newline>a + b = c = 17\<newline>''"
  using test_package_old_output [of empty_process]
  by (simp add: written_def empty_process_def)

text \<open>
  Claim C2. If the call \<^verbatim>\<open>test::sum(5, 6)\<close> returns the sum of the two integers and the
  call \<^verbatim>\<open>test::sum(7.2, 2.5)\<close> returns the floating-point sum of the two literals, then
  the lines \<^verbatim>\<open>sum(5, 6) = 11\<close> and \<^verbatim>\<open>sum(7.2, 2.5) = 9.7\<close> are among the lines the
  modules demo writes. The sum of the two \<^verbatim>\<open>double\<close>s is the one nearest to 9.7, and 9.7
  is its shortest text.
\<close>

theorem cpp_modules_sum_lines:
  assumes "is_sum_int 5 6 (sum_int m 5 6)"
    and "is_sum_double (double_literal 72 (- 1)) (double_literal 25 (- 1))
           (sum_double m (double_literal 72 (- 1)) (double_literal 25 (- 1)))"
  shows "''sum(5, 6) = 11'' \<in> set (lines_of (written p (cpp_modules_main m p))) \<and>
         ''sum(7.2, 2.5) = 9.7'' \<in> set (lines_of (written p (cpp_modules_main m p)))"
proof -
  from assms(1) obtain r1 where r1: "sum_int m 5 6 = Normal r1" and v1: "sint r1 = 11"
    by (cases "sum_int m 5 6") (simp_all add: is_sum_int_def)
  from assms(2) have r2: "sum_double m (double_literal 72 (- 1)) (double_literal 25 (- 1)) =
      Normal 0x4023666666666666"
    by (simp add: is_sum_double_def literal_7_2 literal_2_5 add_7_2_2_5)
  have "show_int (sint r1) = ''11''"
    by (simp add: v1 show_int_def digits_11)
  then show ?thesis
    by (simp add: lines_cpp_modules [OF r1 r2] to_chars_9_7)
qed

theorem cpp_modules_sum_lines_witness:
  "is_sum_int 5 6 (sum_int reference_module 5 6) \<and>
   is_sum_double (double_literal 72 (- 1)) (double_literal 25 (- 1))
     (sum_double reference_module (double_literal 72 (- 1)) (double_literal 25 (- 1))) \<and>
   ''sum(5, 6) = 11'' \<in>
     set (lines_of (written empty_process (cpp_modules_main reference_module empty_process))) \<and>
   ''sum(7.2, 2.5) = 9.7'' \<in>
     set (lines_of (written empty_process (cpp_modules_main reference_module empty_process)))"
proof -
  have h1: "is_sum_int 5 6 (sum_int reference_module 5 6)"
    by (simp add: is_sum_int_def reference_module_def)
  have h2: "is_sum_double (double_literal 72 (- 1)) (double_literal 25 (- 1))
     (sum_double reference_module (double_literal 72 (- 1)) (double_literal 25 (- 1)))"
    by (simp add: is_sum_double_def reference_module_def)
  show ?thesis
    using h1 h2 cpp_modules_sum_lines [OF h1 h2, of empty_process] by simp
qed

text \<open>
  Claim C3, corrected. The package test returns 0 from every run that ends, whether the
  stream takes its writes or not: exactly when no write blocks. The modules demo returns 0
  from a run in which both calls of \<^verbatim>\<open>test::sum\<close> return exactly when the stream takes
  every one of the six writes; a refused write makes \<^verbatim>\<open>std::println\<close> throw, and the
  exception leaves \<^verbatim>\<open>main\<close>. On a stream that takes every write both return 0.
\<close>

theorem exit_code_zero_iff_written:
  "(snd (test_package_old_main_on sink p) = Returned 0 \<longleftrightarrow>
      \<not> snd (stdio_writes sink (stdout p) test_package_old_texts)) \<and>
   snd (test_package_old_main p) = Returned 0 \<and>
   (returns (sum_int m 5 6) \<longrightarrow>
    returns (sum_double m (double_literal 72 (- 1)) (double_literal 25 (- 1))) \<longrightarrow>
      (snd (cpp_modules_main_on sink m p') = Returned 0 \<longleftrightarrow>
         snd (print_writes sink (stdout p') (cpp_modules_texts m)) = Accepted) \<and>
      snd (cpp_modules_main m p') = Returned 0)"
proof (intro conjI impI)
  show "snd (test_package_old_main_on sink p) = Returned 0 \<longleftrightarrow>
      \<not> snd (stdio_writes sink (stdout p) test_package_old_texts)"
    by (simp add: test_package_old_main_on_eval)
next
  show "snd (test_package_old_main p) = Returned 0"
    by (simp add: test_package_old_main_eval)
next
  assume "returns (sum_int m 5 6)"
    and "returns (sum_double m (double_literal 72 (- 1)) (double_literal 25 (- 1)))"
  then have "calls_status m = Returned 0"
    by (auto simp: calls_status_def dest!: returns_Normal)
  then show "snd (cpp_modules_main_on sink m p') = Returned 0 \<longleftrightarrow>
      snd (print_writes sink (stdout p') (cpp_modules_texts m)) = Accepted"
    by (simp add: cpp_modules_main_on_eval split: answer.splits)
next
  assume "returns (sum_int m 5 6)"
    and "returns (sum_double m (double_literal 72 (- 1)) (double_literal 25 (- 1)))"
  then obtain r1 r2 where "sum_int m 5 6 = Normal r1"
    and "sum_double m (double_literal 72 (- 1)) (double_literal 25 (- 1)) = Normal r2"
    by (blast dest: returns_Normal)
  then show "snd (cpp_modules_main m p') = Returned 0"
    by (simp add: cpp_modules_main_eval)
qed

theorem exit_code_zero_iff_written_witness:
  "snd (test_package_old_main_on (full_after 14) empty_process) = Returned 0 \<and>
   returns (sum_int reference_module 5 6) \<and>
   returns (sum_double reference_module (double_literal 72 (- 1)) (double_literal 25 (- 1))) \<and>
   snd (cpp_modules_main_on always_accepts reference_module empty_process) = Returned 0 \<and>
   snd (cpp_modules_main reference_module empty_process) = Returned 0"
  using exit_code_zero_iff_written [of "full_after 14" empty_process reference_module]
    exit_code_zero_iff_written [of always_accepts empty_process reference_module empty_process]
  by (simp add: returns_def reference_module_def empty_process_def full_after_def
      always_accepts_def test_package_old_texts_def cpp_modules_texts_def)

theorem exit_code_full_stream_counterexample:
  "returns (sum_int reference_module 5 6) \<and>
   returns (sum_double reference_module (double_literal 72 (- 1)) (double_literal 25 (- 1))) \<and>
   snd (cpp_modules_main_on (full_after 0) reference_module empty_process) =
     Faulted Uncaught_exception"
  by (simp add: returns_def reference_module_def cpp_modules_main_on_def and_then_def
      println_def full_after_def empty_process_def)

text \<open>
  Claim C4. Two runs of a program, started in any two processes, write the same bytes
  and end in the same way; for the modules demo with the same module, whatever its calls
  do. Nothing of the process a run starts in, its earlier output included, reaches the
  output.
\<close>

theorem runs_are_deterministic:
  "written p (test_package_old_main p) = written p' (test_package_old_main p') \<and>
   snd (test_package_old_main p) = snd (test_package_old_main p') \<and>
   written p (cpp_modules_main m p) = written p' (cpp_modules_main m p') \<and>
   snd (cpp_modules_main m p) = snd (cpp_modules_main m p')"
proof -
  obtain w st where "\<forall>q. cpp_modules_main m q = (q\<lparr>stdout := stdout q @ w\<rparr>, st)"
    using cpp_modules_main_frame by blast
  then have "written p (cpp_modules_main m p) = w" "written p' (cpp_modules_main m p') = w"
    and "snd (cpp_modules_main m p) = st" "snd (cpp_modules_main m p') = st"
    by (simp_all add: written_append)
  moreover have "written p (test_package_old_main p) = written p' (test_package_old_main p')"
    by (simp only: written_test_package_old)
  moreover have "snd (test_package_old_main p) = snd (test_package_old_main p')"
    by (simp add: test_package_old_main_eval)
  ultimately show ?thesis
    by simp
qed

theorem runs_are_deterministic_witness:
  "written empty_process (test_package_old_main empty_process) =
     written (empty_process\<lparr>stdout := ''earlier output''\<rparr>)
       (test_package_old_main (empty_process\<lparr>stdout := ''earlier output''\<rparr>)) \<and>
   written empty_process (cpp_modules_main reference_module empty_process) =
     written (empty_process\<lparr>stdout := ''earlier output''\<rparr>)
       (cpp_modules_main reference_module (empty_process\<lparr>stdout := ''earlier output''\<rparr>))"
  using runs_are_deterministic
    [of empty_process "empty_process\<lparr>stdout := ''earlier output''\<rparr>" reference_module]
  by simp

text \<open>
  Claim C5. The package test writes three lines; the second shows two numbers, and the
  number on the third line is their sum.
\<close>

theorem printed_sum_invariant:
  "length (lines_of (written p (test_package_old_main p))) = 3 \<and>
   length (printed_numbers (lines_of (written p (test_package_old_main p)) ! 1)) = 2 \<and>
   printed_numbers (lines_of (written p (test_package_old_main p)) ! 2) =
     [sum_list (printed_numbers (lines_of (written p (test_package_old_main p)) ! 1))]"
  by (simp add: lines_test_package_old printed_numbers_def digit_value_def)

theorem printed_sum_invariant_witness:
  "printed_numbers (lines_of (written empty_process (test_package_old_main empty_process)) ! 2) =
     [sum_list (printed_numbers
        (lines_of (written empty_process (test_package_old_main empty_process)) ! 1))]"
  using printed_sum_invariant [of empty_process] by simp

text \<open>
  Claim C6, corrected. No run of the package test ends in a fault, whatever the stream
  answers: the addition does not overflow, both \<^verbatim>\<open>printf\<close> calls find their arguments,
  and the results of the writes are not looked at. A run of the modules demo in which both
  calls of \<^verbatim>\<open>test::sum\<close> return ends in a fault exactly when the stream refuses one of
  the writes, by the exception of \<^verbatim>\<open>std::println\<close> that nothing catches; on a stream that
  takes every write it does not.
\<close>

theorem fault_iff_write_refused:
  "(\<forall>f. snd (test_package_old_main_on sink p) \<noteq> Faulted f) \<and>
   (returns (sum_int m 5 6) \<longrightarrow>
    returns (sum_double m (double_literal 72 (- 1)) (double_literal 25 (- 1))) \<longrightarrow>
      (snd (cpp_modules_main_on sink m p') = Faulted Uncaught_exception \<longleftrightarrow>
         snd (print_writes sink (stdout p') (cpp_modules_texts m)) = Refused) \<and>
      (\<forall>f. snd (cpp_modules_main_on sink m p') = Faulted f \<longrightarrow> f = Uncaught_exception) \<and>
      (\<forall>f. snd (cpp_modules_main m p') \<noteq> Faulted f))"
proof (intro conjI impI)
  show "\<forall>f. snd (test_package_old_main_on sink p) \<noteq> Faulted f"
    by (simp add: test_package_old_main_on_eval)
next
  assume "returns (sum_int m 5 6)"
    and "returns (sum_double m (double_literal 72 (- 1)) (double_literal 25 (- 1)))"
  then have "calls_status m = Returned 0"
    by (auto simp: calls_status_def dest!: returns_Normal)
  then show "snd (cpp_modules_main_on sink m p') = Faulted Uncaught_exception \<longleftrightarrow>
      snd (print_writes sink (stdout p') (cpp_modules_texts m)) = Refused"
    and "\<forall>f. snd (cpp_modules_main_on sink m p') = Faulted f \<longrightarrow> f = Uncaught_exception"
    by (simp_all add: cpp_modules_main_on_eval split: answer.splits)
next
  assume "returns (sum_int m 5 6)"
    and "returns (sum_double m (double_literal 72 (- 1)) (double_literal 25 (- 1)))"
  then obtain r1 r2 where "sum_int m 5 6 = Normal r1"
    and "sum_double m (double_literal 72 (- 1)) (double_literal 25 (- 1)) = Normal r2"
    by (blast dest: returns_Normal)
  then show "\<forall>f. snd (cpp_modules_main m p') \<noteq> Faulted f"
    by (simp add: cpp_modules_main_eval)
qed

theorem fault_iff_write_refused_witness:
  "returns (sum_int reference_module 5 6) \<and>
   returns (sum_double reference_module (double_literal 72 (- 1)) (double_literal 25 (- 1))) \<and>
   snd (print_writes (full_after 44) (stdout empty_process)
     (cpp_modules_texts reference_module)) = Refused \<and>
   snd (cpp_modules_main_on (full_after 44) reference_module empty_process) =
     Faulted Uncaught_exception"
  using fault_iff_write_refused [of "full_after 44" empty_process reference_module empty_process]
  by (simp add: returns_def reference_module_def empty_process_def full_after_def
      cpp_modules_texts_def)

theorem failure_path_counterexample:
  "returns (sum_int reference_module 5 6) \<and>
   returns (sum_double reference_module (double_literal 72 (- 1)) (double_literal 25 (- 1))) \<and>
   snd (cpp_modules_main_on (full_after 64) reference_module empty_process) =
     Faulted Uncaught_exception \<and>
   stdout (fst (cpp_modules_main_on (full_after 64) reference_module empty_process)) =
     ''\<newline>========== RUNNING MODULES DEMO ==========\<newline>GNU Toolchain Demo!\<newline>''"
  by (simp add: returns_def reference_module_def cpp_modules_main_on_def and_then_def
      println_def full_after_def empty_process_def waving_hand_def globe_def)

text \<open>
  Claim C7, corrected. Each program is a straight line of calls: it offers its texts to the
  standard output once each, in the order of the source (three for the package test; for
  the modules demo three banner lines, a line after each call of \<^verbatim>\<open>test::sum\<close> that
  returns, and the closing banner), and does nothing else to the process. Its points of
  suspension are these writes and the calls of \<^verbatim>\<open>test::sum\<close>: a run of the package test
  does not end exactly when one of its writes blocks, and a run of the modules demo in which
  the calls of \<^verbatim>\<open>test::sum\<close> end does not end exactly when one of its writes blocks.
\<close>

theorem diverges_iff_write_blocks:
  "(snd (test_package_old_main_on sink p) = Diverged \<longleftrightarrow>
      snd (stdio_writes sink (stdout p) test_package_old_texts)) \<and>
   fst (test_package_old_main_on sink p) =
     p\<lparr>stdout := fst (stdio_writes sink (stdout p) test_package_old_texts)\<rparr> \<and>
   (terminates (sum_int m 5 6) \<longrightarrow>
    terminates (sum_double m (double_literal 72 (- 1)) (double_literal 25 (- 1))) \<longrightarrow>
      (snd (cpp_modules_main_on sink m p') = Diverged \<longleftrightarrow>
         snd (print_writes sink (stdout p') (cpp_modules_texts m)) = Blocked)) \<and>
   fst (cpp_modules_main_on sink m p') =
     p'\<lparr>stdout := fst (print_writes sink (stdout p') (cpp_modules_texts m))\<rparr>"
proof (intro conjI impI)
  show "snd (test_package_old_main_on sink p) = Diverged \<longleftrightarrow>
      snd (stdio_writes sink (stdout p) test_package_old_texts)"
    by (simp add: test_package_old_main_on_eval)
next
  show "fst (test_package_old_main_on sink p) =
      p\<lparr>stdout := fst (stdio_writes sink (stdout p) test_package_old_texts)\<rparr>"
    by (simp add: test_package_old_main_on_eval)
next
  assume "terminates (sum_int m 5 6)"
    and "terminates (sum_double m (double_literal 72 (- 1)) (double_literal 25 (- 1)))"
  then have "calls_status m \<noteq> Diverged"
    by (cases "sum_int m 5 6";
        cases "sum_double m (double_literal 72 (- 1)) (double_literal 25 (- 1))")
      (simp_all add: calls_status_def terminates_def)
  then show "snd (cpp_modules_main_on sink m p') = Diverged \<longleftrightarrow>
      snd (print_writes sink (stdout p') (cpp_modules_texts m)) = Blocked"
    by (simp add: cpp_modules_main_on_eval split: answer.splits)
next
  show "fst (cpp_modules_main_on sink m p') =
      p'\<lparr>stdout := fst (print_writes sink (stdout p') (cpp_modules_texts m))\<rparr>"
    by (simp add: cpp_modules_main_on_eval)
qed

theorem diverges_iff_write_blocks_witness:
  "snd (test_package_old_main_on always_accepts empty_process) \<noteq> Diverged \<and>
   terminates (sum_int reference_module 5 6) \<and>
   terminates (sum_double reference_module (double_literal 72 (- 1)) (double_literal 25 (- 1))) \<and>
   snd (cpp_modules_main_on always_accepts reference_module empty_process) \<noteq> Diverged \<and>
   snd (cpp_modules_main_on stopped reference_module empty_process) = Diverged"
  using diverges_iff_write_blocks [of always_accepts empty_process reference_module empty_process]
    diverges_iff_write_blocks [of stopped empty_process reference_module empty_process]
  by (simp add: terminates_def reference_module_def empty_process_def always_accepts_def
      stopped_def test_package_old_texts_def cpp_modules_texts_def)

theorem termination_stopped_stream_counterexample:
  "snd (test_package_old_main_on stopped empty_process) = Diverged \<and>
   stdout (fst (test_package_old_main_on stopped empty_process)) = []"
  by (simp add: test_package_old_main_on_def and_then_def add_int_def puts_def stopped_def
      empty_process_def)

text \<open>
  Claim C8. Whatever values the two calls of \<^verbatim>\<open>test::sum\<close> return, the modules demo
  writes eight lines: a number never prints as a text with a newline in it.
\<close>

theorem fixed_number_of_lines:
  assumes "returns (sum_int m 5 6)"
    and "returns (sum_double m (double_literal 72 (- 1)) (double_literal 25 (- 1)))"
  shows "length (lines_of (written p (cpp_modules_main m p))) = 8"
proof -
  from assms obtain r1 r2 where "sum_int m 5 6 = Normal r1"
    and "sum_double m (double_literal 72 (- 1)) (double_literal 25 (- 1)) = Normal r2"
    by (blast dest: returns_Normal)
  then show ?thesis
    by (simp add: lines_cpp_modules)
qed

theorem fixed_number_of_lines_witness:
  "returns (sum_int reference_module 5 6) \<and>
   returns (sum_double reference_module (double_literal 72 (- 1)) (double_literal 25 (- 1))) \<and>
   length (lines_of (written empty_process (cpp_modules_main reference_module empty_process))) = 8"
proof -
  have h1: "returns (sum_int reference_module 5 6)"
    by (simp add: returns_def reference_module_def)
  have h2: "returns
     (sum_double reference_module (double_literal 72 (- 1)) (double_literal 25 (- 1)))"
    by (simp add: returns_def reference_module_def)
  show ?thesis
    using h1 h2 fixed_number_of_lines [OF h1 h2, of empty_process] by simp
qed

text \<open>
  Claim C9. Two runs that differ only in the argument vector and in the environment
  leave the same standard output and end in the same way.
\<close>

theorem environment_noninterference:
  "stdout (fst (test_package_old_main (p\<lparr>argv := a, environ := e\<rparr>))) =
     stdout (fst (test_package_old_main (p\<lparr>argv := a', environ := e'\<rparr>))) \<and>
   snd (test_package_old_main (p\<lparr>argv := a, environ := e\<rparr>)) =
     snd (test_package_old_main (p\<lparr>argv := a', environ := e'\<rparr>)) \<and>
   stdout (fst (cpp_modules_main m (p\<lparr>argv := a, environ := e\<rparr>))) =
     stdout (fst (cpp_modules_main m (p\<lparr>argv := a', environ := e'\<rparr>))) \<and>
   snd (cpp_modules_main m (p\<lparr>argv := a, environ := e\<rparr>)) =
     snd (cpp_modules_main m (p\<lparr>argv := a', environ := e'\<rparr>))"
proof -
  obtain w st where "\<forall>q. cpp_modules_main m q = (q\<lparr>stdout := stdout q @ w\<rparr>, st)"
    using cpp_modules_main_frame by blast
  then show ?thesis
    by (simp add: test_package_old_main_eval)
qed

theorem environment_noninterference_witness:
  "stdout (fst (test_package_old_main
      (empty_process\<lparr>argv := [''demo'', ''--verbose''], environ := [(''VERBOSE'', ''1'')]\<rparr>))) =
     stdout (fst (test_package_old_main empty_process)) \<and>
   stdout (fst (cpp_modules_main reference_module
      (empty_process\<lparr>argv := [''demo'', ''--verbose''], environ := [(''VERBOSE'', ''1'')]\<rparr>))) =
     stdout (fst (cpp_modules_main reference_module empty_process))"
  using environment_noninterference
    [where p = empty_process and a = "[''demo'', ''--verbose'']"
       and e = "[(''VERBOSE'', ''1'')]" and a' = "[]" and e' = "[]" and m = reference_module]
  by (simp add: empty_process_def)

text \<open>
  Claim C10. When both calls of \<^verbatim>\<open>test::sum\<close> return, the modules demo writes eight
  lines: an empty line, the line \<^verbatim>\<open>========== RUNNING MODULES DEMO ==========\<close>, the
  line \<^verbatim>\<open>GNU Toolchain Demo!\<close>, the line of the waving hand (bytes F0 9F 91 8B),
  \<^verbatim>\<open> Hello, \<close>, the globe (bytes F0 9F 8C 90) and \<^verbatim>\<open> World\<close>, the two lines of the
  sums, the line \<^verbatim>\<open>========== DEMO FINISHED ==========\<close> and an empty line. The
  first byte written is a newline and the last two are.
\<close>

theorem cpp_modules_output_shape:
  assumes "sum_int m 5 6 = Normal r1"
    and "sum_double m (double_literal 72 (- 1)) (double_literal 25 (- 1)) = Normal r2"
  shows "lines_of (written p (cpp_modules_main m p)) =
     [[],
      ''========== RUNNING MODULES DEMO =========='',
      ''GNU Toolchain Demo!'',
      [CHR 0xF0, CHR 0x9F, CHR 0x91, CHR 0x8B] @ '' Hello, '' @
        [CHR 0xF0, CHR 0x9F, CHR 0x8C, CHR 0x90] @ '' World'',
      ''sum(5, 6) = '' @ show_int (sint r1),
      ''sum(7.2, 2.5) = '' @ to_chars r2,
      ''========== DEMO FINISHED =========='',
      []] \<and>
    hd (written p (cpp_modules_main m p)) = CHR ''\<newline>'' \<and>
    drop (length (written p (cpp_modules_main m p)) - 2) (written p (cpp_modules_main m p)) =
      ''\<newline>\<newline>''"
proof (intro conjI)
  show "lines_of (written p (cpp_modules_main m p)) =
     [[],
      ''========== RUNNING MODULES DEMO =========='',
      ''GNU Toolchain Demo!'',
      [CHR 0xF0, CHR 0x9F, CHR 0x91, CHR 0x8B] @ '' Hello, '' @
        [CHR 0xF0, CHR 0x9F, CHR 0x8C, CHR 0x90] @ '' World'',
      ''sum(5, 6) = '' @ show_int (sint r1),
      ''sum(7.2, 2.5) = '' @ to_chars r2,
      ''========== DEMO FINISHED =========='',
      []]"
    by (rule lines_cpp_modules [OF assms])
next
  show "hd (written p (cpp_modules_main m p)) = CHR ''\<newline>''"
    by (simp add: cpp_modules_main_eval [OF assms] written_def)
next
  define body where "body =
      ''\<newline>========== RUNNING MODULES DEMO ==========\<newline>'' @
      ''GNU Toolchain Demo!\<newline>'' @
      waving_hand @ '' Hello, '' @ globe @ '' World\<newline>'' @
      ''sum(5, 6) = '' @ show_int (sint r1) @ ''\<newline>'' @
      ''sum(7.2, 2.5) = '' @ to_chars r2 @ ''\<newline>'' @
      ''========== DEMO FINISHED ==========''"
  have w: "written p (cpp_modules_main m p) = body @ ''\<newline>\<newline>''"
    by (simp add: body_def cpp_modules_main_eval [OF assms] written_def)
  show "drop (length (written p (cpp_modules_main m p)) - 2)
      (written p (cpp_modules_main m p)) = ''\<newline>\<newline>''"
    unfolding w by simp
qed

theorem cpp_modules_output_shape_witness:
  "sum_int reference_module 5 6 = Normal 11 \<and>
   sum_double reference_module (double_literal 72 (- 1)) (double_literal 25 (- 1)) =
     Normal 0x4023666666666666 \<and>
   lines_of (written empty_process (cpp_modules_main reference_module empty_process)) =
     [[],
      ''========== RUNNING MODULES DEMO =========='',
      ''GNU Toolchain Demo!'',
      [CHR 0xF0, CHR 0x9F, CHR 0x91, CHR 0x8B] @ '' Hello, '' @
        [CHR 0xF0, CHR 0x9F, CHR 0x8C, CHR 0x90] @ '' World'',
      ''sum(5, 6) = 11'',
      ''sum(7.2, 2.5) = 9.7'',
      ''========== DEMO FINISHED =========='',
      []]"
proof -
  have h1: "sum_int reference_module 5 6 = Normal 11"
    by (simp add: reference_module_def)
  have h2: "sum_double reference_module (double_literal 72 (- 1)) (double_literal 25 (- 1)) =
      Normal 0x4023666666666666"
    by (simp add: reference_module_def literal_7_2 literal_2_5 add_7_2_2_5)
  show ?thesis
    using h1 h2 cpp_modules_output_shape [OF h1 h2, of empty_process]
    by (simp add: show_int_def digits_11 to_chars_9_7)
qed

end
